theory Spec2Isabelle
  imports Complex_Main
begin

section \<open>MPAS resource estimation notebook\<close>

text \<open>
  The notebook \<^verbatim>\<open>mpas_simulation_resource_estimation\<close> holds two Python functions,
  a dictionary of mesh configurations and three cells of module-level code that
  assign global names and call the functions.

  Numbers: a Python number is an \<^verbatim>\<open>int\<close> (unbounded) or a \<^verbatim>\<open>float\<close>. The embedding
  keeps the two apart, since \<^verbatim>\<open>*\<close> and \<^verbatim>\<open>+\<close> on two ints give an int and \<^verbatim>\<open>/\<close> always
  gives a float. A float is idealised as an exact real: rounding, overflow to
  \<^verbatim>\<open>inf\<close> and \<^verbatim>\<open>nan\<close> are outside the model, so every statement below is one of exact
  arithmetic. Two effects of the double format change which calls fail, not only
  the last digit of a value: an int beyond the double range that meets a float
  raises \<^verbatim>\<open>OverflowError\<close>, and a quotient or product below the double range underflows
  to \<^verbatim>\<open>0.0\<close>, so that a later division raises \<^verbatim>\<open>ZeroDivisionError\<close>. Neither is in the
  model; the predicate \<open>moderate\<close> below delimits arguments for which neither can
  happen in the two functions.
\<close>

subsection \<open>Numbers and errors\<close>

datatype number = PyInt int | PyFloat real

fun val :: "number \<Rightarrow> real" where
  "val (PyInt i) = of_int i"
| "val (PyFloat x) = x"

text \<open>\<^verbatim>\<open>a * b\<close>: int times int is an int, anything else is a float.\<close>

fun py_mul :: "number \<Rightarrow> number \<Rightarrow> number" where
  "py_mul (PyInt a) (PyInt b) = PyInt (a * b)"
| "py_mul a b = PyFloat (val a * val b)"

text \<open>\<^verbatim>\<open>a + b\<close>, with the same typing.\<close>

fun py_add :: "number \<Rightarrow> number \<Rightarrow> number" where
  "py_add (PyInt a) (PyInt b) = PyInt (a + b)"
| "py_add a b = PyFloat (val a + val b)"

text \<open>
  The exceptions the notebook's code can raise on numeric input: a division by
  zero, a global name that is not bound, a dictionary key that is absent, a list
  index out of range.
\<close>

datatype error =
    ZeroDivisionError
  | NameError string
  | KeyError string
  | IndexError

text \<open>
  \<^verbatim>\<open>a / b\<close>: true division. Python raises \<^verbatim>\<open>ZeroDivisionError\<close> for a zero divisor, of
  either type, and returns a float otherwise.
\<close>

definition py_truediv :: "number \<Rightarrow> number \<Rightarrow> error + number" where
  "py_truediv a b =
     (if val b = 0 then Inl ZeroDivisionError else Inr (PyFloat (val a / val b)))"

subsection \<open>Module globals, dictionaries and lists\<close>

text \<open>
  The module's global namespace, restricted to the names bound to numbers. Reading
  a name that is not bound raises \<^verbatim>\<open>NameError\<close>.
\<close>

type_synonym globals = "string \<rightharpoonup> number"

definition load_global :: "globals \<Rightarrow> string \<Rightarrow> error + number" where
  "load_global g name =
     (case g name of None \<Rightarrow> Inl (NameError name) | Some v \<Rightarrow> Inr v)"

text \<open>\<^verbatim>\<open>d[k]\<close> on a dictionary written as the list of its items.\<close>

definition dict_getitem :: "(string \<times> 'v) list \<Rightarrow> string \<Rightarrow> error + 'v" where
  "dict_getitem d k =
     (case map_of d k of None \<Rightarrow> Inl (KeyError k) | Some v \<Rightarrow> Inr v)"

text \<open>\<^verbatim>\<open>xs[i]\<close> on a list, for the literal indices 0 and 1 that the notebook uses.\<close>

definition list_getitem :: "'a list \<Rightarrow> nat \<Rightarrow> error + 'a" where
  "list_getitem xs i = (if i < length xs then Inr (xs ! i) else Inl IndexError)"

subsection \<open>The mesh table\<close>

text \<open>
  \<^verbatim>\<open>mesh_dict\<close>: mesh identifier to the list [grid spacing (km), number of
  horizontal grid columns], in the order and with the number types of the source.
\<close>

definition mesh_dict :: "(string \<times> number list) list" where
  "mesh_dict =
     [(''3km'', [PyInt 3, PyInt 65536002]),
      (''3.75km'', [PyFloat 3.75, PyInt 41943042]),
      (''7.5km'', [PyFloat 7.5, PyInt 10485762]),
      (''15km'', [PyInt 15, PyInt 2621442]),
      (''30km'', [PyInt 30, PyInt 655362]),
      (''120km'', [PyInt 120, PyInt 40962]),
      (''15-3km-ell'', [PyInt 3, PyInt 8060930]),
      (''15-3km-cir'', [PyInt 3, PyInt 6488066])]"

subsection \<open>The two functions\<close>

text \<open>
  \<^verbatim>\<open>calculate_core_hours_per_time_step_per_grid_point\<close>. The body reads the global
  names \<^verbatim>\<open>grid_columns\<close> and \<^verbatim>\<open>vertical_levels\<close>; the parameters \<^verbatim>\<open>num_grid_columns\<close> and
  \<^verbatim>\<open>num_vertical_levels\<close> are declared and never read. The statements run in the
  source's order, so a zero time step raises before the globals are looked up.
\<close>

definition calculate_core_hours_per_time_step_per_grid_point ::
  "globals \<Rightarrow> number \<Rightarrow> number \<Rightarrow> number \<Rightarrow> number \<Rightarrow> number \<Rightarrow> error + number" where
  "calculate_core_hours_per_time_step_per_grid_point g total_core_hours_used
       time_step_seconds num_grid_columns num_vertical_levels simulation_days =
     (let total_seconds = py_mul (py_mul simulation_days (PyInt 24)) (PyInt 3600) in
      case py_truediv total_seconds time_step_seconds of
        Inl e \<Rightarrow> Inl e
      | Inr total_time_steps \<Rightarrow>
          (case load_global g ''grid_columns'' of
             Inl e \<Rightarrow> Inl e
           | Inr grid_columns \<Rightarrow>
               (case load_global g ''vertical_levels'' of
                  Inl e \<Rightarrow> Inl e
                | Inr vertical_levels \<Rightarrow>
                    (let total_grid_points = py_mul grid_columns vertical_levels in
                     py_truediv total_core_hours_used
                       (py_mul total_time_steps total_grid_points)))))"

text \<open>\<^verbatim>\<open>calculate_core_hours\<close>: reads its own parameters only.\<close>

definition calculate_core_hours ::
  "number \<Rightarrow> number \<Rightarrow> number \<Rightarrow> number \<Rightarrow> number \<Rightarrow> error + number" where
  "calculate_core_hours time_step_seconds num_grid_columns num_vertical_levels
       simulation_days core_hours_per_time_step_per_grid_point =
     (let total_seconds = py_mul (py_mul simulation_days (PyInt 24)) (PyInt 3600) in
      case py_truediv total_seconds time_step_seconds of
        Inl e \<Rightarrow> Inl e
      | Inr total_time_steps \<Rightarrow>
          (let total_grid_points = py_mul num_grid_columns num_vertical_levels;
               total_core_hours =
                 py_mul (py_mul total_time_steps total_grid_points)
                   core_hours_per_time_step_per_grid_point
           in Inr total_core_hours))"

subsection \<open>The cells\<close>

text \<open>
  The first code cell after the function definition: it binds the example's
  parameters as globals (\<^verbatim>\<open>grid_columns\<close> from \<^verbatim>\<open>mesh_dict['3.75km'][1]\<close>) and calls the
  function on them. The result is the value bound to
  \<^verbatim>\<open>core_hours_per_time_step_per_grid_point_calculated\<close>, with the globals as the cell
  leaves them. (\<^verbatim>\<open>dx\<close> is bound to a string there and is not read; it is left out.)
\<close>

definition efficiency_cell :: "globals \<Rightarrow> error + (globals \<times> number)" where
  "efficiency_cell g0 =
     (let total_core_hours_used = PyInt 236000;
          time_step = PyInt 20
      in case dict_getitem mesh_dict ''3.75km'' of
           Inl e \<Rightarrow> Inl e
         | Inr entry \<Rightarrow>
             (case list_getitem entry 1 of
                Inl e \<Rightarrow> Inl e
              | Inr grid_columns \<Rightarrow>
                  (let vertical_levels = PyInt 127;
                       simulation_length = PyInt 4;
                       g = g0(''total_core_hours_used'' \<mapsto> total_core_hours_used,
                              ''time_step'' \<mapsto> time_step,
                              ''grid_columns'' \<mapsto> grid_columns,
                              ''vertical_levels'' \<mapsto> vertical_levels,
                              ''simulation_length'' \<mapsto> simulation_length)
                   in case calculate_core_hours_per_time_step_per_grid_point g
                             total_core_hours_used time_step grid_columns
                             vertical_levels simulation_length of
                        Inl e \<Rightarrow> Inl e
                      | Inr r \<Rightarrow>
                          Inr (g(''core_hours_per_time_step_per_grid_point_calculated''
                                   \<mapsto> r), r))))"

text \<open>
  The storage cell. \<^verbatim>\<open>storage_2d\<close> and \<^verbatim>\<open>storage_3d\<close> are the cell's two expressions
  (in bits), with the names they read as parameters; the cell itself takes
  \<^verbatim>\<open>grid_columns\<close>, \<^verbatim>\<open>vertical_levels\<close> and \<^verbatim>\<open>simulation_length\<close> from the globals that
  earlier cells have bound. The values shown are \<^verbatim>\<open>storage_2d * 1.25e-13\<close>,
  \<^verbatim>\<open>storage_3d * 1.25e-13\<close> and their sum; the rounding to two decimals is done for
  printing only and is not part of the model.
\<close>

definition storage_2d :: "number \<Rightarrow> number \<Rightarrow> number \<Rightarrow> number \<Rightarrow> number" where
  "storage_2d nvars_2d grid_columns simulation_length outputs_per_day_2d =
     py_mul
       (py_mul (py_mul (py_mul nvars_2d grid_columns) simulation_length)
          outputs_per_day_2d)
       (PyInt 32)"

definition storage_3d :: "number \<Rightarrow> number \<Rightarrow> number \<Rightarrow> number \<Rightarrow> number \<Rightarrow> number" where
  "storage_3d nvars_3d grid_columns vertical_levels simulation_length
       outputs_per_day_3d =
     py_mul
       (py_mul
          (py_mul (py_mul (py_mul nvars_3d grid_columns) vertical_levels)
             simulation_length)
          outputs_per_day_3d)
       (PyInt 32)"

text \<open>\<^verbatim>\<open>x * 1.25e-13\<close>: bits to terabytes.\<close>

definition to_tb :: "number \<Rightarrow> number" where
  "to_tb x = py_mul x (PyFloat (1.25 / 10 ^ 13))"

definition storage_cell ::
  "globals \<Rightarrow> number \<Rightarrow> number \<Rightarrow> number \<Rightarrow> number \<Rightarrow> error + (number \<times> number \<times> number)" where
  "storage_cell g nvars_2d nvars_3d outputs_per_day_2d outputs_per_day_3d =
     (case load_global g ''grid_columns'' of
        Inl e \<Rightarrow> Inl e
      | Inr grid_columns \<Rightarrow>
          (case load_global g ''simulation_length'' of
             Inl e \<Rightarrow> Inl e
           | Inr simulation_length \<Rightarrow>
               (case load_global g ''vertical_levels'' of
                  Inl e \<Rightarrow> Inl e
                | Inr vertical_levels \<Rightarrow>
                    (let s2 = storage_2d nvars_2d grid_columns simulation_length
                                outputs_per_day_2d;
                         s3 = storage_3d nvars_3d grid_columns vertical_levels
                                simulation_length outputs_per_day_3d;
                         tb2 = to_tb s2;
                         tb3 = to_tb s3
                     in Inr (tb2, tb3, py_add tb2 tb3)))))"

subsection \<open>Arguments of moderate size\<close>

text \<open>
  A double holds magnitudes from about 2.2e-308 to 1.8e308. \<open>within_magnitude k x\<close>
  says that \<open>x\<close> is zero or has a magnitude between \<open>10^-k\<close> and \<open>10^k\<close>. An argument
  is \<open>moderate\<close> when it is within magnitude 50: then every intermediate value of
  the two functions is within magnitude 300 (lemmas \<open>steps_in_range\<close> to
  \<open>efficiency_in_range\<close> below), well inside the double range, so no int-to-float
  conversion overflows and no non-zero value underflows to zero.
\<close>

definition within_magnitude :: "nat \<Rightarrow> real \<Rightarrow> bool" where
  "within_magnitude k x \<longleftrightarrow> x = 0 \<or> (1 / 10 ^ k \<le> \<bar>x\<bar> \<and> \<bar>x\<bar> \<le> 10 ^ k)"

definition moderate :: "number \<Rightarrow> bool" where
  "moderate x \<longleftrightarrow> within_magnitude 50 (val x)"

section \<open>Basic facts\<close>

lemma val_py_mul: "val (py_mul a b) = val a * val b"
  by (cases a; cases b) simp_all

lemma val_py_add: "val (py_add a b) = val a + val b"
  by (cases a; cases b) simp_all

text \<open>What the two functions return, case by case, in terms of the values.\<close>

lemma calculate_core_hours_eq:
  "calculate_core_hours dt nc nv days c =
     (if val dt = 0 then Inl ZeroDivisionError
      else Inr (PyFloat (val days * 24 * 3600 / val dt * (val nc * val nv) * val c)))"
  by (simp add: calculate_core_hours_def py_truediv_def val_py_mul)

lemma efficiency_eq:
  "calculate_core_hours_per_time_step_per_grid_point g H dt nc nv days =
     (if val dt = 0 then Inl ZeroDivisionError
      else case g ''grid_columns'' of
        None \<Rightarrow> Inl (NameError ''grid_columns'')
      | Some gc \<Rightarrow>
          (case g ''vertical_levels'' of
             None \<Rightarrow> Inl (NameError ''vertical_levels'')
           | Some vl \<Rightarrow>
               if val days * 24 * 3600 / val dt * (val gc * val vl) = 0
               then Inl ZeroDivisionError
               else Inr (PyFloat
                      (val H / (val days * 24 * 3600 / val dt * (val gc * val vl))))))"
  by (simp add: calculate_core_hours_per_time_step_per_grid_point_def py_truediv_def
      load_global_def val_py_mul split: option.splits)

text \<open>Magnitudes under product, quotient and a wider bound.\<close>

lemma within_magnitude_mult:
  assumes "within_magnitude a x" "within_magnitude b y"
  shows "within_magnitude (a + b) (x * y)"
proof (cases "x = 0 \<or> y = 0")
  case True
  then show ?thesis by (auto simp add: within_magnitude_def)
next
  case False
  with assms have x: "1 / 10 ^ a \<le> \<bar>x\<bar>" "\<bar>x\<bar> \<le> 10 ^ a"
    and y: "1 / 10 ^ b \<le> \<bar>y\<bar>" "\<bar>y\<bar> \<le> 10 ^ b"
    by (auto simp add: within_magnitude_def)
  have "(1 / 10 ^ a) * (1 / 10 ^ b) \<le> \<bar>x\<bar> * \<bar>y\<bar>"
    using x(1) y(1) by (intro mult_mono) simp_all
  then have lower: "1 / 10 ^ (a + b) \<le> \<bar>x * y\<bar>"
    by (simp add: power_add abs_mult)
  have "\<bar>x\<bar> * \<bar>y\<bar> \<le> 10 ^ a * 10 ^ b"
    using x(2) y(2) by (intro mult_mono) simp_all
  then have upper: "\<bar>x * y\<bar> \<le> 10 ^ (a + b)"
    by (simp add: power_add abs_mult)
  from lower upper show ?thesis by (simp add: within_magnitude_def)
qed

lemma within_magnitude_inverse:
  assumes "within_magnitude a x"
  shows "within_magnitude a (inverse x)"
proof (cases "x = 0")
  case True
  then show ?thesis by (simp add: within_magnitude_def)
next
  case False
  with assms have x: "1 / 10 ^ a \<le> \<bar>x\<bar>" "\<bar>x\<bar> \<le> 10 ^ a"
    by (auto simp add: within_magnitude_def)
  have pos: "0 < \<bar>x\<bar>" using False by simp
  have "inverse (10 ^ a) \<le> inverse \<bar>x\<bar>"
    using x(2) pos by (simp add: le_imp_inverse_le)
  moreover have "inverse \<bar>x\<bar> \<le> inverse (1 / 10 ^ a)"
    using x(1) by (intro le_imp_inverse_le) simp_all
  ultimately show ?thesis
    by (simp add: within_magnitude_def inverse_eq_divide abs_divide)
qed

lemma within_magnitude_divide:
  "within_magnitude a x \<Longrightarrow> within_magnitude b y \<Longrightarrow> within_magnitude (a + b) (x / y)"
  unfolding divide_inverse by (intro within_magnitude_mult within_magnitude_inverse)

lemma within_magnitude_mono:
  assumes "within_magnitude a x" "a \<le> b"
  shows "within_magnitude b x"
proof (cases "x = 0")
  case True
  then show ?thesis by (simp add: within_magnitude_def)
next
  case False
  with assms have x: "1 / 10 ^ a \<le> \<bar>x\<bar>" "\<bar>x\<bar> \<le> 10 ^ a"
    by (auto simp add: within_magnitude_def)
  have le: "(10::real) ^ a \<le> 10 ^ b"
    using assms(2) by (intro power_increasing) simp_all
  then have "1 / (10::real) ^ b \<le> 1 / 10 ^ a"
    by (simp add: frac_le)
  then have lower: "1 / 10 ^ b \<le> \<bar>x\<bar>"
    using x(1) by (rule order_trans)
  have upper: "\<bar>x\<bar> \<le> 10 ^ b"
    using x(2) le by (rule order_trans)
  show ?thesis
    unfolding within_magnitude_def using lower upper by blast
qed

lemma within_magnitude_86400: "within_magnitude 5 (24 * 3600)"
  by (simp add: within_magnitude_def)

text \<open>
  On moderate arguments the intermediate values of both functions
  (\<^verbatim>\<open>total_time_steps\<close>, its product with \<^verbatim>\<open>total_grid_points\<close>) and their results are
  zero or of a magnitude between 1e-300 and 1e300.
\<close>

lemma steps_in_range:
  assumes "moderate days" "moderate dt"
  shows "within_magnitude 105 (val days * 24 * 3600 / val dt)"
proof -
  have "within_magnitude (50 + 5) (val days * (24 * 3600))"
    using assms(1) within_magnitude_86400 unfolding moderate_def
    by (rule within_magnitude_mult)
  then have "within_magnitude (50 + 5 + 50) (val days * (24 * 3600) / val dt)"
    using assms(2) unfolding moderate_def by (rule within_magnitude_divide)
  then show ?thesis by (simp add: mult.assoc)
qed

lemma steps_times_points_in_range:
  assumes "moderate days" "moderate dt" "moderate nc" "moderate nv"
  shows "within_magnitude 205 (val days * 24 * 3600 / val dt * (val nc * val nv))"
proof -
  have "within_magnitude (50 + 50) (val nc * val nv)"
    using assms(3,4) unfolding moderate_def by (rule within_magnitude_mult)
  with steps_in_range [OF assms(1,2)]
  have "within_magnitude (105 + (50 + 50))
          (val days * 24 * 3600 / val dt * (val nc * val nv))"
    by (rule within_magnitude_mult)
  then show ?thesis by simp
qed

lemma core_hours_in_range:
  assumes "moderate days" "moderate dt" "moderate nc" "moderate nv" "moderate c"
  shows "within_magnitude 300 (val days * 24 * 3600 / val dt * (val nc * val nv) * val c)"
proof -
  have "within_magnitude (205 + 50)
          (val days * 24 * 3600 / val dt * (val nc * val nv) * val c)"
    using steps_times_points_in_range [OF assms(1-4)] assms(5) unfolding moderate_def
    by (rule within_magnitude_mult)
  then show ?thesis by (rule within_magnitude_mono) simp
qed

lemma efficiency_in_range:
  assumes "moderate days" "moderate dt" "moderate nc" "moderate nv" "moderate H"
  shows "within_magnitude 300 (val H / (val days * 24 * 3600 / val dt * (val nc * val nv)))"
proof -
  have "within_magnitude (50 + 205)
          (val H / (val days * 24 * 3600 / val dt * (val nc * val nv)))"
    using assms(5) steps_times_points_in_range [OF assms(1-4)] unfolding moderate_def
    by (rule within_magnitude_divide)
  then show ?thesis by (rule within_magnitude_mono) simp
qed

text \<open>
  When the globals \<^verbatim>\<open>grid_columns\<close> and \<^verbatim>\<open>vertical_levels\<close> hold the very values passed
  as \<^verbatim>\<open>num_grid_columns\<close> and \<^verbatim>\<open>num_vertical_levels\<close>, as in the notebook's own call,
  the function computes the documented quotient and \<^verbatim>\<open>calculate_core_hours\<close> inverts
  it.
\<close>

lemma efficiency_matching_globals:
  assumes "g ''grid_columns'' = Some nc" "g ''vertical_levels'' = Some nv"
    and "val dt \<noteq> 0" "val nc \<noteq> 0" "val nv \<noteq> 0" "val days \<noteq> 0"
  shows "calculate_core_hours_per_time_step_per_grid_point g H dt nc nv days =
     Inr (PyFloat (val H / (val days * 86400 / val dt * (val nc * val nv))))"
  using assms by (simp add: efficiency_eq)

lemma round_trip_matching_globals:
  assumes "g ''grid_columns'' = Some nc" "g ''vertical_levels'' = Some nv"
    and "val dt \<noteq> 0" "val nc \<noteq> 0" "val nv \<noteq> 0" "val days \<noteq> 0"
  shows "\<exists>e. calculate_core_hours_per_time_step_per_grid_point g H dt nc nv days = Inr e
           \<and> calculate_core_hours dt nc nv days e = Inr (PyFloat (val H))"
  using assms by (simp add: efficiency_eq calculate_core_hours_eq)

text \<open>
  Doubling the core-hours argument of either function doubles its value and leaves
  an error as it is.
\<close>

lemma efficiency_double:
  "calculate_core_hours_per_time_step_per_grid_point g (py_mul (PyInt 2) H) dt nc nv days =
     map_sum id (\<lambda>r. PyFloat (2 * val r))
       (calculate_core_hours_per_time_step_per_grid_point g H dt nc nv days)"
  by (simp add: efficiency_eq val_py_mul split: option.splits)

lemma core_hours_double:
  "calculate_core_hours dt nc nv days (py_mul (PyInt 2) c) =
     map_sum id (\<lambda>r. PyFloat (2 * val r)) (calculate_core_hours dt nc nv days c)"
  by (simp add: calculate_core_hours_eq val_py_mul)

text \<open>The example cell runs without error from any starting globals.\<close>

lemma efficiency_cell_result:
  "efficiency_cell g0 =
     Inr (g0(''total_core_hours_used'' \<mapsto> PyInt 236000,
             ''time_step'' \<mapsto> PyInt 20,
             ''grid_columns'' \<mapsto> PyInt 41943042,
             ''vertical_levels'' \<mapsto> PyInt 127,
             ''simulation_length'' \<mapsto> PyInt 4,
             ''core_hours_per_time_step_per_grid_point_calculated'' \<mapsto>
               PyFloat (1475 / 575290764072)),
          PyFloat (1475 / 575290764072))"
  by (simp add: efficiency_cell_def efficiency_eq dict_getitem_def mesh_dict_def
      list_getitem_def)

text \<open>The storage cell, once the three names it reads are bound.\<close>

lemma storage_cell_eq:
  assumes "g ''grid_columns'' = Some gc" "g ''vertical_levels'' = Some vl"
    and "g ''simulation_length'' = Some sl"
  shows "storage_cell g v2 v3 o2 o3 =
     Inr (to_tb (storage_2d v2 gc sl o2),
          to_tb (storage_3d v3 gc vl sl o3),
          py_add (to_tb (storage_2d v2 gc sl o2)) (to_tb (storage_3d v3 gc vl sl o3)))"
  using assms by (simp add: storage_cell_def load_global_def Let_def)

lemma val_storage_2d:
  "val (to_tb (storage_2d v2 gc sl o2)) =
     val v2 * val gc * val sl * val o2 * 32 * (1.25 / 10 ^ 13)"
  by (simp add: storage_2d_def to_tb_def val_py_mul)

lemma val_storage_3d:
  "val (to_tb (storage_3d v3 gc vl sl o3)) =
     val v3 * val gc * val vl * val sl * val o3 * 32 * (1.25 / 10 ^ 13)"
  by (simp add: storage_3d_def to_tb_def val_py_mul)

text \<open>Dictionary lookup: an absent key raises, a present key gives its value.\<close>

lemma mesh_dict_distinct: "distinct (map fst mesh_dict)"
  by (simp add: mesh_dict_def)

lemma dict_getitem_absent:
  "k \<notin> fst ` set d \<Longrightarrow> dict_getitem d k = Inl (KeyError k)"
  using map_of_eq_None_iff [of d k] by (simp add: dict_getitem_def)

lemma dict_getitem_present:
  "distinct (map fst d) \<Longrightarrow> (k, v) \<in> set d \<Longrightarrow> dict_getitem d k = Inr v"
  by (simp add: dict_getitem_def)

section \<open>The efficiency function and its grid arguments\<close>

text \<open>
  C1. The specification has the efficiency operation return H divided by
  (totalSteps times totalGridPoints), with totalGridPoints the product of the
  function's own arguments nc and nv. The code takes the product of the globals
  \<^verbatim>\<open>grid_columns\<close> and \<^verbatim>\<open>vertical_levels\<close> instead. With the globals as the notebook
  binds them (41943042 and 127) and the call (236000, 20, 1000, 10, 4), the code
  returns 1475/575290764072 (about 2.56e-9), not 236000 / (17280 * 10000) = 59/43200
  (about 1.37e-3).
\<close>

theorem efficiency_grid_arguments_unused_example:
  "calculate_core_hours_per_time_step_per_grid_point
       [''grid_columns'' \<mapsto> PyInt 41943042, ''vertical_levels'' \<mapsto> PyInt 127]
       (PyInt 236000) (PyInt 20) (PyInt 1000) (PyInt 10) (PyInt 4)
     = Inr (PyFloat (1475 / 575290764072))
   \<and> (1475 / 575290764072 :: real) \<noteq> 236000 / ((4 * 86400 / 20) * (1000 * 10))"
  by (simp add: efficiency_eq)

text \<open>
  C2. The round-trip law: feeding the efficiency of (H, dt, nc, nv, days) back into
  \<^verbatim>\<open>calculate_core_hours\<close> with the same dt, nc, nv, days gives H again. On the code
  it fails as soon as nc * nv differs from the product of the two globals: with
  the notebook's globals and (236000, 20, 1000, 10, 4) the round trip returns
  1180000000/2663383167, less than 1, instead of 236000.
\<close>

theorem round_trip_fails_example:
  "calculate_core_hours_per_time_step_per_grid_point
       [''grid_columns'' \<mapsto> PyInt 41943042, ''vertical_levels'' \<mapsto> PyInt 127]
       (PyInt 236000) (PyInt 20) (PyInt 1000) (PyInt 10) (PyInt 4)
     = Inr (PyFloat (1475 / 575290764072))
   \<and> calculate_core_hours (PyInt 20) (PyInt 1000) (PyInt 10) (PyInt 4)
       (PyFloat (1475 / 575290764072))
     = Inr (PyFloat (1180000000 / 2663383167))
   \<and> (1180000000 / 2663383167 :: real) < 1"
  by (simp add: efficiency_eq calculate_core_hours_eq)

text \<open>
  C10. Under the same globals, two calls of the efficiency function that agree on
  \<^verbatim>\<open>total_core_hours_used\<close>, \<^verbatim>\<open>time_step_seconds\<close> and \<^verbatim>\<open>simulation_days\<close> return the same
  result (value or error), whatever they pass as \<^verbatim>\<open>num_grid_columns\<close> and
  \<^verbatim>\<open>num_vertical_levels\<close>.
\<close>

theorem efficiency_independent_of_grid_arguments:
  "calculate_core_hours_per_time_step_per_grid_point g H dt nc nv days =
   calculate_core_hours_per_time_step_per_grid_point g H dt nc' nv' days"
  by (simp add: calculate_core_hours_per_time_step_per_grid_point_def)

section \<open>Non-positive arguments\<close>

text \<open>
  C3, as amended. Neither function validates its arguments, and there is no
  InvalidParameter outcome. The statement is for arguments of moderate size (each
  zero or of a magnitude between 1e-50 and 1e50), for which no intermediate value
  leaves the range of a double; beyond that size Python's floats can overflow or
  underflow and the statement says nothing. On such arguments: a zero
  \<^verbatim>\<open>time_step_seconds\<close> makes both functions raise \<^verbatim>\<open>ZeroDivisionError\<close>. For any other
  time step, negative ones included, \<^verbatim>\<open>calculate_core_hours\<close> returns a float whatever
  the signs of the grid size and the simulation length are, zero included; the
  efficiency function, called on the grid that the globals hold, raises
  \<^verbatim>\<open>ZeroDivisionError\<close> when the number of columns, the number of levels or the
  simulation length is zero, and returns a float when all three are non-zero,
  negative values included. A float that is returned is zero or of a magnitude
  between 1e-300 and 1e300.
\<close>

theorem nonpositive_arguments_amended:
  assumes "moderate H" "moderate dt" "moderate nc" "moderate nv" "moderate days"
    and "moderate c"
  shows
  "(val dt = 0 \<longrightarrow>
      calculate_core_hours_per_time_step_per_grid_point g H dt nc nv days
        = Inl ZeroDivisionError
      \<and> calculate_core_hours dt nc nv days c = Inl ZeroDivisionError)
   \<and> (val dt \<noteq> 0 \<longrightarrow>
        (\<exists>r. calculate_core_hours dt nc nv days c = Inr (PyFloat r)
             \<and> within_magnitude 300 r))
   \<and> (val dt \<noteq> 0 \<and> g ''grid_columns'' = Some nc \<and> g ''vertical_levels'' = Some nv
        \<and> (val days = 0 \<or> val nc = 0 \<or> val nv = 0) \<longrightarrow>
      calculate_core_hours_per_time_step_per_grid_point g H dt nc nv days
        = Inl ZeroDivisionError)
   \<and> (val dt \<noteq> 0 \<and> g ''grid_columns'' = Some nc \<and> g ''vertical_levels'' = Some nv
        \<and> val days \<noteq> 0 \<and> val nc \<noteq> 0 \<and> val nv \<noteq> 0 \<longrightarrow>
      (\<exists>r. calculate_core_hours_per_time_step_per_grid_point g H dt nc nv days
             = Inr (PyFloat r)
           \<and> within_magnitude 300 r))"
  using core_hours_in_range [OF assms(5,2,3,4,6)] efficiency_in_range [OF assms(5,2,3,4,1)]
  by (auto simp add: efficiency_eq calculate_core_hours_eq)

theorem nonpositive_arguments_amended_witness:
  "calculate_core_hours_per_time_step_per_grid_point
       [''grid_columns'' \<mapsto> PyInt 41943042, ''vertical_levels'' \<mapsto> PyInt 127]
       (PyInt 236000) (PyInt 0) (PyInt 41943042) (PyInt 127) (PyInt 4)
     = Inl ZeroDivisionError
   \<and> calculate_core_hours (PyInt 0) (PyInt 41943042) (PyInt 127) (PyInt 4) (PyFloat 1)
     = Inl ZeroDivisionError
   \<and> (\<exists>r. calculate_core_hours (PyInt (- 20)) (PyInt 0) (PyInt (- 127)) (PyInt 0)
             (PyFloat 1) = Inr (PyFloat r) \<and> within_magnitude 300 r)
   \<and> calculate_core_hours_per_time_step_per_grid_point
       [''grid_columns'' \<mapsto> PyInt 0, ''vertical_levels'' \<mapsto> PyInt (- 127)]
       (PyInt 236000) (PyInt (- 20)) (PyInt 0) (PyInt (- 127)) (PyInt 0)
     = Inl ZeroDivisionError
   \<and> (\<exists>r. calculate_core_hours_per_time_step_per_grid_point
             [''grid_columns'' \<mapsto> PyInt (- 5), ''vertical_levels'' \<mapsto> PyInt (- 127)]
             (PyInt 236000) (PyInt (- 20)) (PyInt (- 5)) (PyInt (- 127)) (PyInt (- 4))
           = Inr (PyFloat r) \<and> within_magnitude 300 r)"
proof -
  have m: "moderate (PyInt 236000)" "moderate (PyInt 0)" "moderate (PyInt 41943042)"
    "moderate (PyInt 127)" "moderate (PyInt 4)" "moderate (PyFloat 1)"
    "moderate (PyInt (- 20))" "moderate (PyInt (- 127))" "moderate (PyInt (- 5))"
    "moderate (PyInt (- 4))"
    by (simp_all add: moderate_def within_magnitude_def)
  note zero_step = nonpositive_arguments_amended [OF m(1) m(2) m(3) m(4) m(5) m(6),
      of "[''grid_columns'' \<mapsto> PyInt 41943042, ''vertical_levels'' \<mapsto> PyInt 127]"]
  note zero_grid = nonpositive_arguments_amended [OF m(1) m(7) m(2) m(8) m(2) m(6),
      of "[''grid_columns'' \<mapsto> PyInt 0, ''vertical_levels'' \<mapsto> PyInt (- 127)]"]
  note negative = nonpositive_arguments_amended [OF m(1) m(7) m(9) m(8) m(10) m(6),
      of "[''grid_columns'' \<mapsto> PyInt (- 5), ''vertical_levels'' \<mapsto> PyInt (- 127)]"]
  from zero_step zero_grid negative show ?thesis by simp
qed

text \<open>
  C3, as stated, would have every call with a zero or negative time step, grid
  size or simulation length fail. It does not: \<^verbatim>\<open>calculate_core_hours\<close> returns a
  number for a negative time step, and for a zero grid and simulation length; the
  efficiency function returns one for a negative time step, and for a negative
  number of columns (the global \<^verbatim>\<open>grid_columns\<close> holding the same value).
\<close>

theorem nonpositive_arguments_counterexample:
  "calculate_core_hours (PyInt (- 20)) (PyInt 10) (PyInt 10) (PyInt 4) (PyFloat 1)
     = Inr (PyFloat (- 1728000))
   \<and> calculate_core_hours (PyInt 20) (PyInt 0) (PyInt 10) (PyInt 0) (PyFloat 1)
     = Inr (PyFloat 0)
   \<and> calculate_core_hours_per_time_step_per_grid_point
       [''grid_columns'' \<mapsto> PyInt 41943042, ''vertical_levels'' \<mapsto> PyInt 127]
       (PyInt 236000) (PyInt (- 20)) (PyInt 41943042) (PyInt 127) (PyInt 4)
     = Inr (PyFloat (- (1475 / 575290764072)))
   \<and> calculate_core_hours_per_time_step_per_grid_point
       [''grid_columns'' \<mapsto> PyInt (- 5), ''vertical_levels'' \<mapsto> PyInt 127]
       (PyInt 236000) (PyInt 20) (PyInt (- 5)) (PyInt 127) (PyInt 4)
     = Inr (PyFloat (- (295 / 13716)))"
  by (simp add: efficiency_eq calculate_core_hours_eq)

section \<open>Scaling\<close>

text \<open>
  C7. With a positive time step and simulation length (and, for the efficiency
  function, the globals \<^verbatim>\<open>grid_columns\<close> and \<^verbatim>\<open>vertical_levels\<close> bound to positive
  numbers), both functions return a number, doubling \<^verbatim>\<open>total_core_hours_used\<close>
  doubles the efficiency, and doubling \<^verbatim>\<open>core_hours_per_time_step_per_grid_point\<close>
  doubles the total core-hours, everything else held fixed.
\<close>

theorem doubling_doubles:
  assumes "0 < val dt" "0 < val days"
    and "g ''grid_columns'' = Some gc" "g ''vertical_levels'' = Some vl"
    and "0 < val gc" "0 < val vl"
  shows "(\<exists>r. calculate_core_hours_per_time_step_per_grid_point g H dt nc nv days = Inr r
            \<and> calculate_core_hours_per_time_step_per_grid_point g
                 (py_mul (PyInt 2) H) dt nc nv days = Inr (PyFloat (2 * val r)))
       \<and> (\<exists>t. calculate_core_hours dt nc nv days c = Inr t
            \<and> calculate_core_hours dt nc nv days (py_mul (PyInt 2) c)
                = Inr (PyFloat (2 * val t)))"
  using assms by (simp add: efficiency_eq calculate_core_hours_eq val_py_mul)

theorem doubling_doubles_witness:
  "(\<exists>r. calculate_core_hours_per_time_step_per_grid_point
            [''grid_columns'' \<mapsto> PyInt 41943042, ''vertical_levels'' \<mapsto> PyInt 127]
            (PyInt 236000) (PyInt 20) (PyInt 41943042) (PyInt 127) (PyInt 4) = Inr r
        \<and> calculate_core_hours_per_time_step_per_grid_point
            [''grid_columns'' \<mapsto> PyInt 41943042, ''vertical_levels'' \<mapsto> PyInt 127]
            (PyInt 472000) (PyInt 20) (PyInt 41943042) (PyInt 127) (PyInt 4)
          = Inr (PyFloat (2 * val r)))
   \<and> (\<exists>t. calculate_core_hours (PyInt 20) (PyInt 41943042) (PyInt 127) (PyInt 4)
            (PyFloat (1 / 10 ^ 9)) = Inr t
        \<and> calculate_core_hours (PyInt 20) (PyInt 41943042) (PyInt 127) (PyInt 4)
            (PyFloat (2 / 10 ^ 9)) = Inr (PyFloat (2 * val t)))"
  using doubling_doubles [of "PyInt 20" "PyInt 4"
      "[''grid_columns'' \<mapsto> PyInt 41943042, ''vertical_levels'' \<mapsto> PyInt 127]"
      "PyInt 41943042" "PyInt 127" "PyInt 236000" "PyInt 41943042" "PyInt 127"
      "PyFloat (1 / 10 ^ 9)"]
  by simp

section \<open>The documented example\<close>

text \<open>
  C8. On the documented example (236000 core-hours, a 20 s time step, 41943042
  columns, 127 levels, 4 days) the efficiency function returns about
  2.5639208763925117e-09: the example cell runs from any starting globals, the
  value it binds is the value of the call on those inputs under the globals the
  cell has bound, and in exact arithmetic that value, 1475/575290764072, is within
  2e-25 of the documented decimal.
\<close>

theorem documented_example_efficiency:
  "\<exists>g r. efficiency_cell g0 = Inr (g, PyFloat r)
     \<and> calculate_core_hours_per_time_step_per_grid_point g
          (PyInt 236000) (PyInt 20) (PyInt 41943042) (PyInt 127) (PyInt 4)
        = Inr (PyFloat r)
     \<and> \<bar>r - 2.5639208763925117 / 10 ^ 9\<bar> < 2 / 10 ^ 25"
proof -
  let ?r = "1475 / 575290764072 :: real"
  obtain g where cell: "efficiency_cell g0 = Inr (g, PyFloat ?r)"
    and "g ''grid_columns'' = Some (PyInt 41943042)"
    and "g ''vertical_levels'' = Some (PyInt 127)"
    by (simp add: efficiency_cell_result)
  then have "calculate_core_hours_per_time_step_per_grid_point g
      (PyInt 236000) (PyInt 20) (PyInt 41943042) (PyInt 127) (PyInt 4) = Inr (PyFloat ?r)"
    by (simp add: efficiency_eq)
  moreover have "\<bar>?r - 2.5639208763925117 / 10 ^ 9\<bar> < 2 / 10 ^ 25"
    by simp
  ultimately show ?thesis using cell by blast
qed

section \<open>Storage\<close>

text \<open>
  C4. Once \<^verbatim>\<open>grid_columns\<close>, \<^verbatim>\<open>vertical_levels\<close> and \<^verbatim>\<open>simulation_length\<close> are bound, the
  storage cell yields three numbers: the 2D storage
  vars2D * gridColumns * simulationDays * outputsPerDay2D * 32 * 1.25e-13, the 3D
  storage vars3D * gridColumns * verticalLevels * simulationDays * outputsPerDay3D
  * 32 * 1.25e-13, and their sum as the total. It holds for all numbers, so for
  the non-negative ones.
\<close>

theorem storage_estimate_formula:
  assumes "g ''grid_columns'' = Some gc" "g ''vertical_levels'' = Some vl"
    and "g ''simulation_length'' = Some sl"
  shows "\<exists>tb2 tb3 total.
     storage_cell g v2 v3 o2 o3 = Inr (tb2, tb3, total)
     \<and> val tb2 = val v2 * val gc * val sl * val o2 * 32 * (1.25 / 10 ^ 13)
     \<and> val tb3 = val v3 * val gc * val vl * val sl * val o3 * 32 * (1.25 / 10 ^ 13)
     \<and> val total = val tb2 + val tb3"
proof -
  let ?tb2 = "to_tb (storage_2d v2 gc sl o2)"
  let ?tb3 = "to_tb (storage_3d v3 gc vl sl o3)"
  have "storage_cell g v2 v3 o2 o3 = Inr (?tb2, ?tb3, py_add ?tb2 ?tb3)"
    by (rule storage_cell_eq [OF assms])
  moreover have "val ?tb2 = val v2 * val gc * val sl * val o2 * 32 * (1.25 / 10 ^ 13)"
    by (rule val_storage_2d)
  moreover have
    "val ?tb3 = val v3 * val gc * val vl * val sl * val o3 * 32 * (1.25 / 10 ^ 13)"
    by (rule val_storage_3d)
  moreover have "val (py_add ?tb2 ?tb3) = val ?tb2 + val ?tb3"
    by (rule val_py_add)
  ultimately show ?thesis by blast
qed

text \<open>
  The notebook's own figures: 15 and 9 variables, 24 and 8 outputs per day, the
  3.75 km mesh, 127 levels, 365 days give 22.05, 559.95 and 581.99 TB to two
  decimals.
\<close>

theorem storage_estimate_formula_witness:
  "\<exists>tb2 tb3 total.
     storage_cell
       [''grid_columns'' \<mapsto> PyInt 41943042, ''vertical_levels'' \<mapsto> PyInt 127,
        ''simulation_length'' \<mapsto> PyInt 365]
       (PyInt 15) (PyInt 9) (PyInt 24) (PyInt 8) = Inr (tb2, tb3, total)
     \<and> val tb2 = 13778289297 / 625000000
     \<and> val tb3 = 1749842740719 / 3125000000
     \<and> val total = 454683546801 / 781250000"
proof -
  let ?g = "[''grid_columns'' \<mapsto> PyInt 41943042, ''vertical_levels'' \<mapsto> PyInt 127,
             ''simulation_length'' \<mapsto> PyInt 365]"
  have gc: "?g ''grid_columns'' = Some (PyInt 41943042)"
    and vl: "?g ''vertical_levels'' = Some (PyInt 127)"
    and sl: "?g ''simulation_length'' = Some (PyInt 365)"
    by simp_all
  obtain tb2 tb3 total where
    cell: "storage_cell ?g (PyInt 15) (PyInt 9) (PyInt 24) (PyInt 8) = Inr (tb2, tb3, total)"
    and tb2: "val tb2 = val (PyInt 15) * val (PyInt 41943042) * val (PyInt 365)
                * val (PyInt 24) * 32 * (1.25 / 10 ^ 13)"
    and tb3: "val tb3 = val (PyInt 9) * val (PyInt 41943042) * val (PyInt 127)
                * val (PyInt 365) * val (PyInt 8) * 32 * (1.25 / 10 ^ 13)"
    and total: "val total = val tb2 + val tb3"
    using storage_estimate_formula [OF gc vl sl, of "PyInt 15" "PyInt 9" "PyInt 24" "PyInt 8"]
    by blast
  have "val tb2 = 13778289297 / 625000000"
    unfolding tb2 by simp
  moreover have "val tb3 = 1749842740719 / 3125000000"
    unfolding tb3 by simp
  moreover have "val total = 454683546801 / 781250000"
    unfolding total tb2 tb3 by simp
  ultimately show ?thesis using cell by blast
qed

text \<open>
  C6. Each storage term is linear in the variable count, the output frequency and
  the simulation length taken one at a time: multiplying one of them by a factor k
  multiplies the term by k. The 2D term is zero when \<^verbatim>\<open>nvars_2d\<close> or
  \<^verbatim>\<open>outputs_per_day_2d\<close> is zero, the 3D term when \<^verbatim>\<open>nvars_3d\<close> or \<^verbatim>\<open>outputs_per_day_3d\<close> is.
\<close>

theorem storage_linear:
  "val (to_tb (storage_2d (py_mul k nvars_2d) gc sl o2))
     = val k * val (to_tb (storage_2d nvars_2d gc sl o2))
   \<and> val (to_tb (storage_2d nvars_2d gc sl (py_mul k o2)))
     = val k * val (to_tb (storage_2d nvars_2d gc sl o2))
   \<and> val (to_tb (storage_2d nvars_2d gc (py_mul k sl) o2))
     = val k * val (to_tb (storage_2d nvars_2d gc sl o2))
   \<and> val (to_tb (storage_3d (py_mul k nvars_3d) gc vl sl o3))
     = val k * val (to_tb (storage_3d nvars_3d gc vl sl o3))
   \<and> val (to_tb (storage_3d nvars_3d gc vl sl (py_mul k o3)))
     = val k * val (to_tb (storage_3d nvars_3d gc vl sl o3))
   \<and> val (to_tb (storage_3d nvars_3d gc vl (py_mul k sl) o3))
     = val k * val (to_tb (storage_3d nvars_3d gc vl sl o3))
   \<and> (val nvars_2d = 0 \<or> val o2 = 0 \<longrightarrow> val (to_tb (storage_2d nvars_2d gc sl o2)) = 0)
   \<and> (val nvars_3d = 0 \<or> val o3 = 0 \<longrightarrow>
        val (to_tb (storage_3d nvars_3d gc vl sl o3)) = 0)"
  by (auto simp add: val_storage_2d val_storage_3d val_py_mul)

theorem storage_linear_witness:
  "val (to_tb (storage_2d (PyInt 0) (PyInt 41943042) (PyInt 365) (PyInt 24))) = 0
   \<and> val (to_tb (storage_3d (PyInt 9) (PyInt 41943042) (PyInt 127) (PyInt 365) (PyInt 0)))
     = 0
   \<and> val (to_tb (storage_2d (PyInt 45) (PyInt 41943042) (PyInt 365) (PyInt 24)))
     = 3 * val (to_tb (storage_2d (PyInt 15) (PyInt 41943042) (PyInt 365) (PyInt 24)))"
  using
    storage_linear [of "PyInt 3" "PyInt 0" "PyInt 41943042" "PyInt 365" "PyInt 24"
      "PyInt 9" "PyInt 127" "PyInt 0"]
    storage_linear [of "PyInt 3" "PyInt 15" "PyInt 41943042" "PyInt 365" "PyInt 24"
      "PyInt 9" "PyInt 127" "PyInt 8"]
  by simp

section \<open>The mesh table\<close>

text \<open>
  C5. Looking up a mesh identifier that is not a key of \<^verbatim>\<open>mesh_dict\<close> raises
  \<^verbatim>\<open>KeyError\<close> on that key (the specification's UnknownMeshKey), with no default in
  its place; looking up a key of the table returns the list stored under it,
  unchanged.
\<close>

theorem mesh_lookup:
  "(k \<notin> fst ` set mesh_dict \<longrightarrow> dict_getitem mesh_dict k = Inl (KeyError k))
   \<and> ((k, v) \<in> set mesh_dict \<longrightarrow> dict_getitem mesh_dict k = Inr v)"
  by (simp add: dict_getitem_absent dict_getitem_present [OF mesh_dict_distinct])

theorem mesh_lookup_witness:
  "''1km'' \<notin> fst ` set mesh_dict
   \<and> dict_getitem mesh_dict ''1km'' = Inl (KeyError ''1km'')
   \<and> (''3.75km'', [PyFloat 3.75, PyInt 41943042]) \<in> set mesh_dict
   \<and> dict_getitem mesh_dict ''3.75km'' = Inr [PyFloat 3.75, PyInt 41943042]"
proof -
  have absent: "''1km'' \<notin> fst ` set mesh_dict"
    by (simp add: mesh_dict_def)
  have present: "(''3.75km'', [PyFloat 3.75, PyInt 41943042]) \<in> set mesh_dict"
    by (simp add: mesh_dict_def)
  from absent present
    mesh_lookup [of "''1km''" "[]"]
    mesh_lookup [of "''3.75km''" "[PyFloat 3.75, PyInt 41943042]"]
  show ?thesis by blast
qed

text \<open>
  C9. Every entry of \<^verbatim>\<open>mesh_dict\<close> is a two-element list whose first element, the grid
  spacing, is a positive number and whose second, the number of grid columns, is a
  positive int. The table is a constant: neither function nor any cell assigns to
  it or to one of its lists, so the entries stay as constructed.
\<close>

theorem mesh_dict_entries_positive:
  "\<forall>(k, v) \<in> set mesh_dict.
     \<exists>spacing n. v = [spacing, PyInt n] \<and> 0 < val spacing \<and> 0 < n"
  by (simp add: mesh_dict_def)

theorem mesh_dict_entries_positive_witness:
  "(''3.75km'', [PyFloat 3.75, PyInt 41943042]) \<in> set mesh_dict
   \<and> (\<exists>spacing n. [PyFloat 3.75, PyInt 41943042] = [spacing, PyInt n]
         \<and> 0 < val spacing \<and> 0 < n)"
proof -
  have mem: "(''3.75km'', [PyFloat 3.75, PyInt 41943042]) \<in> set mesh_dict"
    by (simp add: mesh_dict_def)
  from mesh_dict_entries_positive mem show ?thesis by blast
qed

end
